theory Spec2Isabelle
  imports Complex_Main "HOL-Library.Word"
begin

section \<open>Data model of the tracer (ddtrace/tracer/tracer.go)\<close>

subsection \<open>Scalars\<close>

type_synonym u64 = "64 word"

text \<open>
  A Go \<open>float64\<close>: the finite values are over-approximated by the reals, the three special
  values are kept apart because \<open>NaN < 1\<close> is false in Go.
\<close>

datatype float64 = NaN | NegInf | PosInf | Finite real

fun float_less :: "float64 \<Rightarrow> float64 \<Rightarrow> bool" where
  "float_less NaN _ = False"
| "float_less _ NaN = False"
| "float_less PosInf _ = False"
| "float_less NegInf NegInf = False"
| "float_less NegInf _ = True"
| "float_less (Finite x) NegInf = False"
| "float_less (Finite x) PosInf = True"
| "float_less (Finite x) (Finite y) = (x < y)"

text \<open>A Go \<open>error\<close> value, identified with its message.\<close>

type_synonym err = string

text \<open>A tag value (\<open>interface{}\<close> in \<open>SetTag\<close>): a string annotation or a numeric one.\<close>

datatype tagvalue = TagString string | TagNumber float64

subsection \<open>Spans and span contexts\<close>

text \<open>
  The span context, with the fields the specification lists. The back-reference
  \<open>context.span\<close> is not a field of this record: a context stored in the field \<open>span_context\<close>
  of a span refers to that span, and a context handed to \<open>StartSpan\<close> as a parent comes paired
  with the span its \<open>span\<close> pointer refers to (see \<open>SpanContext\<close> below).
\<close>

record spanContext =
  traceID :: u64
  spanID :: u64
  sampled :: bool

text \<open>
  The struct \<open>span\<close>, with the fields that \<open>StartSpan\<close> and \<open>sample\<close> read or write. The
  pointer \<open>span.parent\<close> is kept as a handle, the \<open>SpanID\<close> of the span it points to; the
  back-pointer \<open>span.tracer\<close> is left out. The field \<open>span.context\<close> is \<open>span_context\<close> (nil is \<open>None\<close>).
\<close>

record span =
  Name :: string
  Service :: string
  Resource :: string
  Meta :: "string \<rightharpoonup> string"
  Metrics :: "string \<rightharpoonup> float64"
  SpanID :: u64
  TraceID :: u64
  ParentID :: u64
  Start :: int
  finished :: bool
  parent :: "u64 option"
  span_context :: "spanContext option"

subsection \<open>Channels\<close>

text \<open>
  A buffered Go channel: the queued values, oldest first, and \<open>cap\<close>. \<open>len_chan\<close> is Go's
  \<open>len(c)\<close>. \<open>trySend\<close> is the send case of a \<open>select\<close> that has a \<open>default\<close> branch:
  \<open>None\<close> means that the send was not ready and the \<open>default\<close> branch runs.
\<close>

record 'a chan =
  items :: "'a list"
  capacity :: nat

definition make_chan :: "nat \<Rightarrow> 'a chan" where
  "make_chan n = \<lparr>items = [], capacity = n\<rparr>"

definition len_chan :: "'a chan \<Rightarrow> nat" where
  "len_chan c = length (items c)"

definition trySend :: "'a \<Rightarrow> 'a chan \<Rightarrow> 'a chan option" where
  "trySend x c = (if len_chan c < capacity c then Some (c\<lparr>items := items c @ [x]\<rparr>) else None)"

subsection \<open>Internal error records\<close>

text \<open>
  Modelled from the spec: the constructors \<open>traceBufferError\<close>, \<open>encodingError\<close> and
  \<open>transportError\<close> of \<open>*tracerError\<close> (errors.go is not under src/). The specification
  describes an error record as a kind tag with a message and, where relevant, a count.
\<close>

datatype tracerError =
  traceBufferError nat
| encodingError err
| transportError err nat

subsection \<open>The payload\<close>

text \<open>
  Modelled from the spec: the type \<open>payload\<close> with \<open>push\<close>, \<open>size\<close>, \<open>itemCount\<close> and
  \<open>reset\<close> (payload.go is not under src/). The specification says that the payload
  accumulates the pushed trace sequences, tracks the cumulative encoded byte size and the
  item (trace) count, that \<open>reset\<close> clears it, and that \<open>push\<close> can fail with an encoding
  error without changing size or count. The encoder is external: \<open>enc\<close> gives, for a trace,
  an encoding error or the number of bytes of its encoding.
\<close>

record payload =
  traces :: "span list list"
  bytes :: nat

definition newPayload :: payload where
  "newPayload = \<lparr>traces = [], bytes = 0\<rparr>"

definition itemCount :: "payload \<Rightarrow> nat" where
  "itemCount p = length (traces p)"

definition size_payload :: "payload \<Rightarrow> nat" where
  "size_payload p = bytes p"

definition reset :: "payload \<Rightarrow> payload" where
  "reset p = p\<lparr>traces := [], bytes := 0\<rparr>"

definition push :: "(span list \<Rightarrow> err + nat) \<Rightarrow> span list \<Rightarrow> payload \<Rightarrow> err option \<times> payload" where
  "push enc trace p =
     (case enc trace of
        Inl e \<Rightarrow> (Some e, p)
      | Inr n \<Rightarrow> (None, p\<lparr>traces := traces p @ [trace], bytes := bytes p + n\<rparr>))"

subsection \<open>Configuration and tracer state\<close>

text \<open>
  The \<open>Sampler\<close> interface: \<open>Sample\<close>, and \<open>Rate\<close> when the concrete sampler is also a
  \<open>RateSampler\<close> (\<open>None\<close> when the type assertion fails).
\<close>

record sampler =
  Sample :: "span \<Rightarrow> bool"
  Rate :: "float64 option"

text \<open>
  The fields of \<open>config\<close> that tracer.go reads. \<open>transport_send\<close> is \<open>transport.send\<close>
  reduced to its error result. \<open>globalTags\<close> is a Go map; the list gives its entries in the
  order in which \<open>range\<close> visits them.
\<close>

record config =
  debug :: bool
  serviceName :: string
  globalTags :: "(string \<times> tagvalue) list"
  sampler :: sampler
  transport_send :: "payload \<Rightarrow> err option"

text \<open>
  The struct \<open>tracer\<close>. The unbuffered channels \<open>exitReq\<close> and \<open>flushAllReq\<close> hold no data;
  a closed \<open>stopped\<close> channel is \<open>stopped = True\<close>; \<open>syncPush\<close> records whether the test-only
  channel is non-nil. \<open>exitWaiting\<close> is the number of callers parked in the send
  \<open>t.exitReq <- struct{}{}\<close>, which the worker releases one at a time by receiving. The
  last four fields record what the tracer did to its environment: the number of sends on
  \<open>exitReq\<close> begun so far, the payloads handed to \<open>transport.send\<close>, the error records
  given to \<open>logErrors\<close>, and the (size, count) pairs of the debug log line.
\<close>

record tracer =
  payload :: payload
  flushTracesReq :: "unit chan"
  flushErrorsReq :: "unit chan"
  traceBuffer :: "span list chan"
  errorBuffer :: "tracerError chan"
  stopped :: bool
  syncPush :: bool
  exitWaiting :: nat
  exitReqs :: nat
  sent :: "payload list"
  logged :: "tracerError list"
  printed :: "(nat \<times> nat) list"

definition flushInterval_seconds :: nat where
  "flushInterval_seconds = 2"

definition payloadSizeLimit :: nat where
  "payloadSizeLimit = 5 * 1024 * 1024"

definition traceBufferSize :: nat where
  "traceBufferSize = 200"

definition errorBufferSize :: nat where
  "errorBufferSize = 200"

text \<open>The tracer as \<open>newTracer\<close> builds it, before the worker has taken a step.\<close>

definition newTracer :: tracer where
  "newTracer =
     \<lparr>payload = newPayload,
      flushTracesReq = make_chan 1,
      flushErrorsReq = make_chan 1,
      traceBuffer = make_chan traceBufferSize,
      errorBuffer = make_chan errorBufferSize,
      stopped = False,
      syncPush = False,
      exitWaiting = 0,
      exitReqs = 0,
      sent = [],
      logged = [],
      printed = []\<rparr>"

section \<open>Operations of the tracer\<close>

subsection \<open>pushError\<close>

text \<open>The first \<open>select\<close> of \<open>pushError\<close>: a flush-errors request, unless one is pending.\<close>

definition requestFlushErrors :: "tracer \<Rightarrow> tracer" where
  "requestFlushErrors t =
     (case trySend () (flushErrorsReq t) of
        Some c \<Rightarrow> t\<lparr>flushErrorsReq := c\<rparr>
      | None \<Rightarrow> t)"

definition pushError :: "tracerError \<Rightarrow> tracer \<Rightarrow> tracer" where
  "pushError e t =
     (let t1 = (if len_chan (errorBuffer t) \<ge> capacity (errorBuffer t) div 2
                then requestFlushErrors t else t)
      in case trySend e (errorBuffer t1) of
           Some c \<Rightarrow> t1\<lparr>errorBuffer := c\<rparr>
         | None \<Rightarrow> t1)"

subsection \<open>flushTraces, flushErrors, flush\<close>

definition flushTraces :: "config \<Rightarrow> tracer \<Rightarrow> tracer" where
  "flushTraces cfg t =
     (if itemCount (payload t) = 0 then t
      else
        let t1 = (if debug cfg
                  then t\<lparr>printed := printed t @ [(size_payload (payload t), itemCount (payload t))]\<rparr>
                  else t);
            t2 = t1\<lparr>sent := sent t1 @ [payload t1]\<rparr>
        in case transport_send cfg (payload t1) of
             Some e \<Rightarrow> pushError (transportError e (itemCount (payload t2))) t2
           | None \<Rightarrow> t2\<lparr>payload := reset (payload t2)\<rparr>)"




subsection \<open>pushPayload and pushTrace\<close>

text \<open>
  What a call does to its caller: it returns, or it is parked on the test-only channel
  \<open>syncPush\<close> (a send in \<open>pushPayload\<close>, a receive in \<open>pushTrace\<close>) until the other side
  arrives, or it is parked in the send on \<open>exitReq\<close> (in \<open>Stop\<close>) until the worker
  receives. \<open>state_of\<close> is the state reached when the call returns or parks.
\<close>

datatype 'a outcome =
  Returns (state_of: 'a) | WaitsSyncPush (state_of: 'a) | WaitsExitReq (state_of: 'a)

definition requestFlushTraces :: "tracer \<Rightarrow> tracer" where
  "requestFlushTraces t =
     (case trySend () (flushTracesReq t) of
        Some c \<Rightarrow> t\<lparr>flushTracesReq := c\<rparr>
      | None \<Rightarrow> t)"

definition pushPayload :: "(span list \<Rightarrow> err + nat) \<Rightarrow> span list \<Rightarrow> tracer \<Rightarrow> tracer outcome" where
  "pushPayload enc trace t =
     (let t1 = (case push enc trace (payload t) of
                  (Some e, p) \<Rightarrow> pushError (encodingError e) (t\<lparr>payload := p\<rparr>)
                | (None, p) \<Rightarrow> t\<lparr>payload := p\<rparr>);
          t2 = (if size_payload (payload t1) > payloadSizeLimit then requestFlushTraces t1 else t1)
      in if syncPush t2 then WaitsSyncPush t2 else Returns t2)"

definition pushTrace :: "span list \<Rightarrow> tracer \<Rightarrow> tracer outcome" where
  "pushTrace trace t =
     (let t1 = (case trySend trace (traceBuffer t) of
                  Some c \<Rightarrow> t\<lparr>traceBuffer := c\<rparr>
                | None \<Rightarrow> pushError (traceBufferError (length trace)) t)
      in if syncPush t1 then WaitsSyncPush t1 else Returns t1)"

subsection \<open>The worker and Stop\<close>






section \<open>Starting spans\<close>

subsection \<open>Tags\<close>

definition sampleRateMetricKey :: string where
  "sampleRateMetricKey = ''_sample_rate''"

text \<open>
  Modelled from the spec: the keys \<open>samplingPriorityKey\<close> (span.go) and \<open>ext.Pid\<close>
  (package ext), which are not under src/. No property below depends on their spelling.
\<close>

definition samplingPriorityKey :: string where
  "samplingPriorityKey = ''_sampling_priority_v1''"

definition ext_Pid :: string where
  "ext_Pid = ''system.pid''"

text \<open>
  Modelled from the spec: \<open>span.SetTag\<close> (span.go is not under src/). The specification
  gives a span two mutable annotation maps, string tags and numeric metrics, and calls
  \<open>SetTag\<close> the set-operation on them, where a later value wins on a key collision.
\<close>

definition SetTag :: "string \<Rightarrow> tagvalue \<Rightarrow> span \<Rightarrow> span" where
  "SetTag k v s =
     (case v of
        TagString x \<Rightarrow> s\<lparr>Meta := (Meta s)(k \<mapsto> x)\<rparr>
      | TagNumber x \<Rightarrow> s\<lparr>Metrics := (Metrics s)(k \<mapsto> x)\<rparr>)"

text \<open>The loops \<open>for k, v := range tags { span.SetTag(k, v) }\<close>.\<close>

fun applyTags :: "(string \<times> tagvalue) list \<Rightarrow> span \<Rightarrow> span" where
  "applyTags [] s = s"
| "applyTags ((k, v) # kvs) s = applyTags kvs (SetTag k v s)"


fun tagMetrics :: "(string \<times> tagvalue) list \<Rightarrow> (string \<rightharpoonup> float64)" where
  "tagMetrics [] = Map.empty"
| "tagMetrics ((k, TagString x) # kvs) = tagMetrics kvs"
| "tagMetrics ((k, TagNumber x) # kvs) = [k \<mapsto> x] ++ tagMetrics kvs"

subsection \<open>strconv.Itoa\<close>

fun digits10 :: "nat \<Rightarrow> string" where
  "digits10 n =
     (if n < 10 then [''0123456789'' ! n]
      else digits10 (n div 10) @ [''0123456789'' ! (n mod 10)])"

declare digits10.simps [simp del]

definition Itoa :: "int \<Rightarrow> string" where
  "Itoa i = (if i < 0 then CHR ''-'' # digits10 (nat (- i)) else digits10 (nat i))"

subsection \<open>sample\<close>

text \<open>A Go panic. \<open>sample\<close> writes through \<open>span.context\<close>, which panics when it is nil.\<close>

datatype panic = NilDereference

definition sample :: "config \<Rightarrow> span \<Rightarrow> panic + span" where
  "sample cfg s =
     (let smp = sampler cfg;
          b = Sample smp s
      in case span_context s of
           None \<Rightarrow> Inl NilDereference
         | Some c \<Rightarrow>
             (let s1 = s\<lparr>span_context := Some (c\<lparr>sampled := b\<rparr>)\<rparr>
              in if \<not> b then Inr s1
                 else case Rate smp of
                        None \<Rightarrow> Inr s1
                      | Some r \<Rightarrow>
                          if float_less r (Finite 1)
                          then (if finished s1 then Inr s1
                                else Inr (s1\<lparr>Metrics := (Metrics s1)(sampleRateMetricKey \<mapsto> r)\<rparr>))
                          else Inr s1))"

subsection \<open>StartSpan\<close>

text \<open>
  What \<open>opts.Parent\<close>, of interface type \<open>ddtrace.SpanContext\<close>, can hold: a value of
  another implementation (\<open>Foreign\<close>), or a \<open>*spanContext\<close> (\<open>Own\<close>), which is nil
  (\<open>Own None\<close>) or points to a context. That context comes with the span its field \<open>span\<close>
  points to, as that span is when \<open>StartSpan\<close> reads it: \<open>None\<close> when \<open>context.span\<close> is nil.
\<close>

datatype SpanContext = Foreign | Own "(spanContext \<times> span option) option"

text \<open>
  \<open>ddtrace.StartSpanConfig\<close> after the options have run: a zero \<open>StartTime\<close> is \<open>None\<close>,
  otherwise its \<open>UnixNano()\<close>; \<open>Tags\<close> is a Go map, listed in the order of \<open>range\<close>.
\<close>

record StartSpanConfig =
  Parent :: "SpanContext option"
  StartTime :: "int option"
  Tags :: "(string \<times> tagvalue) list"

text \<open>What the call reads from its environment: \<open>now()\<close>, \<open>random.Uint64()\<close>, \<open>os.Getpid()\<close>.\<close>

record env =
  now :: int
  random_Uint64 :: u64
  Getpid :: int

text \<open>The \<open>*spanContext\<close> that \<open>StartSpan\<close> keeps in its variable \<open>context\<close> (lines 206-211).\<close>

definition ownContext :: "StartSpanConfig \<Rightarrow> (spanContext \<times> span option) option" where
  "ownContext opts =
     (case Parent opts of
        None \<Rightarrow> None
      | Some Foreign \<Rightarrow> None
      | Some (Own c) \<Rightarrow> c)"

text \<open>
  \<open>StartSpan\<close> returns the span together with the spans on which it invoked the Sampler.
  The constructor \<open>newSpanContext\<close> (spancontext.go) is not under src/ and is a parameter
  \<open>nsc\<close>: it receives the span and the parent's context.
\<close>

text \<open>The span literal of lines 214-225 (``span defaults'').\<close>

definition spanDefaults :: "config \<Rightarrow> env \<Rightarrow> string \<Rightarrow> StartSpanConfig \<Rightarrow> span" where
  "spanDefaults cfg e operationName opts =
     \<lparr>Name = operationName, Service = serviceName cfg, Resource = operationName,
      Meta = Map.empty, Metrics = Map.empty,
      SpanID = random_Uint64 e, TraceID = random_Uint64 e, ParentID = 0,
      Start = (case StartTime opts of None \<Rightarrow> now e | Some t \<Rightarrow> t),
      finished = False, parent = None, span_context = None\<rparr>"

definition StartSpan ::
  "(span \<Rightarrow> spanContext option \<Rightarrow> spanContext) \<Rightarrow> config \<Rightarrow> env \<Rightarrow> string \<Rightarrow> StartSpanConfig
     \<Rightarrow> panic + (span \<times> span list)" where
  "StartSpan nsc cfg e operationName opts =
     (let ctx = ownContext opts;
          s0 = spanDefaults cfg e operationName opts;
          s1 = (case ctx of
                  None \<Rightarrow> s0
                | Some (c, None) \<Rightarrow> s0\<lparr>TraceID := traceID c, ParentID := spanID c\<rparr>
                | Some (c, Some p) \<Rightarrow>
                    (let s = s0\<lparr>Service := Service p, TraceID := TraceID p, ParentID := SpanID p,
                                 parent := Some (SpanID p)\<rparr>;
                         s' = s\<lparr>span_context := Some (nsc s (span_context p))\<rparr>
                     in case Metrics p samplingPriorityKey of
                          Some v \<Rightarrow> s'\<lparr>Metrics := (Metrics s')(samplingPriorityKey \<mapsto> v)\<rparr>
                        | None \<Rightarrow> s'));
          root = (case ctx of None \<Rightarrow> True | Some (c, None) \<Rightarrow> True | Some (c, Some p) \<Rightarrow> False)
      in if root
         then (let s2 = s1\<lparr>span_context := Some (nsc s1 None)\<rparr>;
                   s3 = SetTag ext_Pid (TagString (Itoa (Getpid e))) s2
               in case sample cfg s3 of
                    Inl x \<Rightarrow> Inl x
                  | Inr s4 \<Rightarrow> Inr (applyTags (globalTags cfg) (applyTags (Tags opts) s4), [s3]))
         else Inr (applyTags (globalTags cfg) (applyTags (Tags opts) s1), []))"


definition startedMetric :: "string \<Rightarrow> panic + (span \<times> span list) \<Rightarrow> float64 option" where
  "startedMetric k r = (case r of Inl x \<Rightarrow> None | Inr (s, calls) \<Rightarrow> Metrics s k)"


section \<open>Concrete inputs\<close>

definition halfSampler :: sampler where
  "halfSampler = \<lparr>Sample = (\<lambda>s. True), Rate = Some (Finite (1 / 2))\<rparr>"

definition agentUp :: config where
  "agentUp = \<lparr>debug = False, serviceName = ''svc'',
              globalTags = [(''env'', TagString ''prod'')],
              sampler = halfSampler, transport_send = (\<lambda>p. None)\<rparr>"

definition agentDown :: config where
  "agentDown = agentUp\<lparr>transport_send := (\<lambda>p. Some ''connection refused'')\<rparr>"

definition byteEncoder :: "span list \<Rightarrow> err + nat" where
  "byteEncoder trace = (case trace of [] \<Rightarrow> Inl ''empty trace'' | s # ss \<Rightarrow> Inr (100 * length trace))"

definition plainContext :: "span \<Rightarrow> spanContext option \<Rightarrow> spanContext" where
  "plainContext s par = \<lparr>traceID = TraceID s, spanID = SpanID s, sampled = False\<rparr>"

definition firstCall :: env where
  "firstCall = \<lparr>now = 1000, random_Uint64 = 42, Getpid = 4711\<rparr>"


definition spanA :: span where
  "spanA = \<lparr>Name = ''A'', Service = ''web'', Resource = ''A'',
            Meta = Map.empty, Metrics = [samplingPriorityKey \<mapsto> Finite 2],
            SpanID = 5, TraceID = 7, ParentID = 0, Start = 10,
            finished = False, parent = None,
            span_context = Some \<lparr>traceID = 7, spanID = 5, sampled = True\<rparr>\<rparr>"

definition remoteContext :: spanContext where
  "remoteContext = \<lparr>traceID = 7, spanID = 9, sampled = True\<rparr>"

definition noParent :: StartSpanConfig where
  "noParent = \<lparr>Parent = None, StartTime = None, Tags = [(''k'', TagNumber (Finite 3))]\<rparr>"

definition localParent :: StartSpanConfig where
  "localParent = noParent\<lparr>Parent := Some (Own (Some (\<lparr>traceID = 7, spanID = 5, sampled = True\<rparr>, Some spanA)))\<rparr>"

definition retagged :: StartSpanConfig where
  "retagged = localParent\<lparr>Tags := [(samplingPriorityKey, TagNumber (Finite 0))]\<rparr>"

definition remoteParent :: StartSpanConfig where
  "remoteParent = noParent\<lparr>Parent := Some (Own (Some (remoteContext, None)))\<rparr>"


text \<open>
  A tracer whose payload holds one trace, one whose payload is exactly at the size limit,
  one whose two queues are full, one with a trace in the payload and a record in the error
  queue, and one whose ingestion queue is full and whose error queue is half full.
\<close>

definition loaded :: tracer where
  "loaded = newTracer\<lparr>payload := \<lparr>traces = [[spanA]], bytes = 100\<rparr>\<rparr>"

definition heavy :: tracer where
  "heavy = newTracer\<lparr>payload := \<lparr>traces = [[spanA]], bytes = 5242880\<rparr>\<rparr>"

definition choked :: tracer where
  "choked = newTracer\<lparr>traceBuffer := \<lparr>items = replicate 200 [spanA], capacity = 200\<rparr>,
                       errorBuffer := \<lparr>items = replicate 200 (encodingError ''e''), capacity = 200\<rparr>\<rparr>"


definition saturated :: tracer where
  "saturated = newTracer\<lparr>traceBuffer := \<lparr>items = replicate 200 [spanA], capacity = 200\<rparr>,
                          errorBuffer := \<lparr>items = replicate 100 (encodingError ''e''), capacity = 200\<rparr>\<rparr>"

section \<open>Properties of the queues and of the worker\<close>

subsection \<open>What the operations leave alone\<close>

lemma requestFlushErrors_fields:
  "payload (requestFlushErrors t) = payload t"
  "flushTracesReq (requestFlushErrors t) = flushTracesReq t"
  "traceBuffer (requestFlushErrors t) = traceBuffer t"
  "errorBuffer (requestFlushErrors t) = errorBuffer t"
  "stopped (requestFlushErrors t) = stopped t"
  "syncPush (requestFlushErrors t) = syncPush t"
  "exitReqs (requestFlushErrors t) = exitReqs t"
  "exitWaiting (requestFlushErrors t) = exitWaiting t"
  "sent (requestFlushErrors t) = sent t"
  "logged (requestFlushErrors t) = logged t"
  "printed (requestFlushErrors t) = printed t"
  by (simp_all add: requestFlushErrors_def split: option.split)

lemma pushError_fields:
  "payload (pushError e t) = payload t"
  "flushTracesReq (pushError e t) = flushTracesReq t"
  "traceBuffer (pushError e t) = traceBuffer t"
  "stopped (pushError e t) = stopped t"
  "syncPush (pushError e t) = syncPush t"
  "exitReqs (pushError e t) = exitReqs t"
  "exitWaiting (pushError e t) = exitWaiting t"
  "sent (pushError e t) = sent t"
  "logged (pushError e t) = logged t"
  "printed (pushError e t) = printed t"
  by (simp_all add: pushError_def Let_def requestFlushErrors_fields split: option.split)

lemma pushError_errorBuffer:
  "errorBuffer (pushError e t) =
     (if len_chan (errorBuffer t) < capacity (errorBuffer t)
      then (errorBuffer t)\<lparr>items := items (errorBuffer t) @ [e]\<rparr>
      else errorBuffer t)"
  by (simp add: pushError_def Let_def requestFlushErrors_fields trySend_def split: option.split)

lemma requestFlushTraces_fields:
  "payload (requestFlushTraces t) = payload t"
  "flushErrorsReq (requestFlushTraces t) = flushErrorsReq t"
  "traceBuffer (requestFlushTraces t) = traceBuffer t"
  "errorBuffer (requestFlushTraces t) = errorBuffer t"
  "stopped (requestFlushTraces t) = stopped t"
  "syncPush (requestFlushTraces t) = syncPush t"
  "exitReqs (requestFlushTraces t) = exitReqs t"
  "exitWaiting (requestFlushTraces t) = exitWaiting t"
  "sent (requestFlushTraces t) = sent t"
  "logged (requestFlushTraces t) = logged t"
  "printed (requestFlushTraces t) = printed t"
  by (simp_all add: requestFlushTraces_def split: option.split)

lemma requestFlushTraces_chan:
  "flushTracesReq (requestFlushTraces t) =
     (if len_chan (flushTracesReq t) < capacity (flushTracesReq t)
      then (flushTracesReq t)\<lparr>items := items (flushTracesReq t) @ [()]\<rparr>
      else flushTracesReq t)"
  by (simp add: requestFlushTraces_def trySend_def)




subsection \<open>flushTraces\<close>

lemma flushTraces_empty: "itemCount (payload t) = 0 \<Longrightarrow> flushTraces cfg t = t"
  by (simp add: flushTraces_def)

lemma flushTraces_sent:
  "itemCount (payload t) \<noteq> 0 \<Longrightarrow> sent (flushTraces cfg t) = sent t @ [payload t]"
  by (simp add: flushTraces_def Let_def pushError_fields split: option.split)

lemma flushTraces_ok:
  "itemCount (payload t) \<noteq> 0 \<Longrightarrow> transport_send cfg (payload t) = None \<Longrightarrow>
   payload (flushTraces cfg t) = reset (payload t) \<and> errorBuffer (flushTraces cfg t) = errorBuffer t"
  by (simp add: flushTraces_def Let_def)

lemma flushTraces_fail:
  "itemCount (payload t) \<noteq> 0 \<Longrightarrow> transport_send cfg (payload t) = Some e \<Longrightarrow>
   flushTraces cfg t =
     pushError (transportError e (itemCount (payload t)))
       (t\<lparr>printed := (if debug cfg then printed t @ [(size_payload (payload t), itemCount (payload t))]
                      else printed t),
          sent := sent t @ [payload t]\<rparr>)"
  by (simp add: flushTraces_def Let_def)

lemma itemCount_reset: "itemCount (reset p) = 0"
  by (simp add: itemCount_def reset_def)

text \<open>
  Claim C1, as the code has it. \<open>flushTraces\<close> returns at once when the payload holds no
  item: nothing is sent and the state stays as it is. When the payload holds at least one
  item, it is handed to the transport. If the transport returns no error, the payload is
  reset and its item count is 0. If the transport returns an error, the payload is left
  as it was and \<open>pushError\<close> is called with a transport error that carries the item count
  of the payload; that record is queued when the error queue has room.
\<close>

theorem flushTraces_sends_nonempty_payload:
  "(itemCount (payload t) = 0 \<longrightarrow> flushTraces cfg t = t)
   \<and> (itemCount (payload t) \<noteq> 0 \<longrightarrow>
        sent (flushTraces cfg t) = sent t @ [payload t]
        \<and> (transport_send cfg (payload t) = None \<longrightarrow>
             payload (flushTraces cfg t) = reset (payload t)
             \<and> itemCount (payload (flushTraces cfg t)) = 0
             \<and> errorBuffer (flushTraces cfg t) = errorBuffer t)
        \<and> (\<forall>e. transport_send cfg (payload t) = Some e \<longrightarrow>
             payload (flushTraces cfg t) = payload t
             \<and> flushTraces cfg t =
                 pushError (transportError e (itemCount (payload t)))
                   (t\<lparr>printed := (if debug cfg
                                  then printed t @ [(size_payload (payload t), itemCount (payload t))]
                                  else printed t),
                      sent := sent t @ [payload t]\<rparr>)
             \<and> (len_chan (errorBuffer t) < capacity (errorBuffer t) \<longrightarrow>
                  items (errorBuffer (flushTraces cfg t))
                    = items (errorBuffer t) @ [transportError e (itemCount (payload t))])))"
  by (auto simp: flushTraces_empty flushTraces_sent flushTraces_ok itemCount_reset
        flushTraces_fail pushError_fields pushError_errorBuffer)

theorem flushTraces_sends_nonempty_payload_witness:
  "itemCount (payload loaded) \<noteq> 0
   \<and> sent (flushTraces agentUp loaded) = [payload loaded]
   \<and> itemCount (payload (flushTraces agentUp loaded)) = 0
   \<and> payload (flushTraces agentDown loaded) = payload loaded
   \<and> items (errorBuffer (flushTraces agentDown loaded)) = [transportError ''connection refused'' 1]
   \<and> flushTraces agentUp newTracer = newTracer"
  using flushTraces_sends_nonempty_payload [of loaded agentUp]
    flushTraces_sends_nonempty_payload [of loaded agentDown]
    flushTraces_sends_nonempty_payload [of newTracer agentUp]
  by (simp add: loaded_def agentUp_def agentDown_def newTracer_def newPayload_def itemCount_def
        make_chan_def len_chan_def errorBufferSize_def reset_def pushError_fields
        pushError_errorBuffer)

text \<open>
  Claim C1 as stated fails on a tracer with an empty payload: \<open>flushTraces\<close> does not
  hand that payload to the transport.
\<close>

theorem flushTraces_empty_payload_not_sent:
  "sent (flushTraces agentUp newTracer) \<noteq> sent newTracer @ [payload newTracer]"
  by (simp add: flushTraces_def newTracer_def newPayload_def itemCount_def)

subsection \<open>pushError\<close>

text \<open>
  Claim C6. \<open>pushError\<close> first looks at the error queue: when its length is at least half
  its capacity, a flush-errors request is queued if the request channel has room, and
  skipped if a request is pending. Then the record is queued if the error queue has room,
  and dropped if it is full. Nothing else in the tracer changes, and the call returns: no
  branch waits on a channel.
\<close>

theorem pushError_policy:
  "flushErrorsReq (pushError e t) =
     (if capacity (errorBuffer t) div 2 \<le> len_chan (errorBuffer t)
         \<and> len_chan (flushErrorsReq t) < capacity (flushErrorsReq t)
      then (flushErrorsReq t)\<lparr>items := items (flushErrorsReq t) @ [()]\<rparr>
      else flushErrorsReq t)
   \<and> errorBuffer (pushError e t) =
     (if len_chan (errorBuffer t) < capacity (errorBuffer t)
      then (errorBuffer t)\<lparr>items := items (errorBuffer t) @ [e]\<rparr>
      else errorBuffer t)
   \<and> pushError e t =
        t\<lparr>flushErrorsReq := flushErrorsReq (pushError e t),
          errorBuffer := errorBuffer (pushError e t)\<rparr>"
  by (simp add: pushError_def Let_def requestFlushErrors_def trySend_def split: option.split)

theorem pushError_policy_witness:
  "items (flushErrorsReq (pushError (encodingError ''x'') saturated)) = [()]
   \<and> items (flushErrorsReq (pushError (encodingError ''y'') (pushError (encodingError ''x'') saturated))) = [()]
   \<and> length (items (errorBuffer (pushError (encodingError ''x'') saturated))) = 101
   \<and> items (flushErrorsReq (pushError (encodingError ''x'') newTracer)) = []
   \<and> items (errorBuffer (pushError (encodingError ''x'') newTracer)) = [encodingError ''x'']"
  using pushError_policy [of "encodingError ''x''" saturated]
    pushError_policy [of "encodingError ''y''" "pushError (encodingError ''x'') saturated"]
    pushError_policy [of "encodingError ''x''" newTracer]
  by (simp add: saturated_def newTracer_def make_chan_def len_chan_def errorBufferSize_def)

subsection \<open>pushTrace\<close>

text \<open>
  Claim C5, as the code has it. \<open>pushTrace\<close> changes nothing but the ingestion queue, the
  error queue and the flush-errors request channel. When the ingestion queue has room, the
  trace is queued and nothing else changes. When it is full, the trace is dropped and the
  overflow error, which carries the number of spans of the trace, goes through \<open>pushError\<close>:
  it is queued when the error queue has room and discarded when the error queue is full
  too, and a flush-errors request is queued when the error queue is at least half full and
  no request is pending. Outside the synchronous test mode (\<open>syncPush\<close> nil) the call
  returns in every case.
\<close>

theorem pushTrace_policy:
  "traceBuffer (state_of (pushTrace trace t)) =
     (if len_chan (traceBuffer t) < capacity (traceBuffer t)
      then (traceBuffer t)\<lparr>items := items (traceBuffer t) @ [trace]\<rparr>
      else traceBuffer t)
   \<and> errorBuffer (state_of (pushTrace trace t)) =
     (if \<not> len_chan (traceBuffer t) < capacity (traceBuffer t)
         \<and> len_chan (errorBuffer t) < capacity (errorBuffer t)
      then (errorBuffer t)\<lparr>items := items (errorBuffer t) @ [traceBufferError (length trace)]\<rparr>
      else errorBuffer t)
   \<and> flushErrorsReq (state_of (pushTrace trace t)) =
     (if \<not> len_chan (traceBuffer t) < capacity (traceBuffer t)
         \<and> capacity (errorBuffer t) div 2 \<le> len_chan (errorBuffer t)
         \<and> len_chan (flushErrorsReq t) < capacity (flushErrorsReq t)
      then (flushErrorsReq t)\<lparr>items := items (flushErrorsReq t) @ [()]\<rparr>
      else flushErrorsReq t)
   \<and> state_of (pushTrace trace t) =
        t\<lparr>flushErrorsReq := flushErrorsReq (state_of (pushTrace trace t)),
          traceBuffer := traceBuffer (state_of (pushTrace trace t)),
          errorBuffer := errorBuffer (state_of (pushTrace trace t))\<rparr>
   \<and> pushTrace trace t =
        (if syncPush t then WaitsSyncPush (state_of (pushTrace trace t))
         else Returns (state_of (pushTrace trace t)))"
  by (simp add: pushTrace_def pushError_def requestFlushErrors_def trySend_def Let_def)

theorem pushTrace_policy_witness:
  "traceBuffer (state_of (pushTrace [spanA] newTracer)) = \<lparr>items = [[spanA]], capacity = 200\<rparr>
   \<and> errorBuffer (state_of (pushTrace [spanA] newTracer)) = errorBuffer newTracer
   \<and> pushTrace [spanA] newTracer = Returns (state_of (pushTrace [spanA] newTracer))
   \<and> traceBuffer (state_of (pushTrace [spanA, spanA] saturated)) = traceBuffer saturated
   \<and> items (errorBuffer (state_of (pushTrace [spanA, spanA] saturated)))
       = replicate 100 (encodingError ''e'') @ [traceBufferError 2]
   \<and> items (flushErrorsReq (state_of (pushTrace [spanA, spanA] saturated))) = [()]
   \<and> pushTrace [spanA, spanA] saturated = Returns (state_of (pushTrace [spanA, spanA] saturated))
   \<and> traceBuffer (state_of (pushTrace [spanA, spanA] choked)) = traceBuffer choked
   \<and> errorBuffer (state_of (pushTrace [spanA, spanA] choked)) = errorBuffer choked
   \<and> pushTrace [spanA, spanA] choked = Returns (state_of (pushTrace [spanA, spanA] choked))"
  using pushTrace_policy [of "[spanA]" newTracer]
    pushTrace_policy [of "[spanA, spanA]" saturated]
    pushTrace_policy [of "[spanA, spanA]" choked]
  by (simp add: saturated_def choked_def newTracer_def make_chan_def len_chan_def
        traceBufferSize_def errorBufferSize_def)

text \<open>
  Claim C5 as stated fails when the ingestion queue and the error queue are both full:
  the trace is dropped, and the overflow error is not in the error queue afterwards.
\<close>

theorem pushTrace_overflow_error_discarded:
  "len_chan (traceBuffer choked) = capacity (traceBuffer choked)
   \<and> traceBuffer (state_of (pushTrace [spanA, spanA] choked)) = traceBuffer choked
   \<and> traceBufferError (length [spanA, spanA])
        \<notin> set (items (errorBuffer (state_of (pushTrace [spanA, spanA] choked))))"
  by (simp add: pushTrace_def pushError_def requestFlushErrors_def trySend_def Let_def
        choked_def newTracer_def make_chan_def len_chan_def)

subsection \<open>pushPayload\<close>

lemma pushPayload_state:
  "state_of (pushPayload enc trace t) =
     (let t1 = (case enc trace of
                  Inl e \<Rightarrow> pushError (encodingError e) t
                | Inr n \<Rightarrow> t\<lparr>payload := (payload t)\<lparr>traces := traces (payload t) @ [trace],
                                                    bytes := bytes (payload t) + n\<rparr>\<rparr>)
      in if size_payload (payload t1) > payloadSizeLimit then requestFlushTraces t1 else t1)"
  by (simp add: pushPayload_def push_def Let_def requestFlushTraces_fields split: sum.split)

text \<open>
  Claim C8, as the code has it. When the merge of a trace fails, the payload is as before,
  so the trace is dropped, and the encoding error goes through \<open>pushError\<close>: it is queued
  when the error queue has room and discarded when the error queue is full. When the merge
  succeeds, the trace is the last item of the payload and the error queue is as before.
  Afterwards, when the size of the payload exceeds \<open>5 * 1024 * 1024\<close> bytes, a flush-traces
  request is queued if the request channel has room and skipped if one is pending; at or
  below that size no request is made.
\<close>

theorem pushPayload_merge:
  "payloadSizeLimit = 5 * 1024 * 1024
   \<and> (\<forall>e. enc trace = Inl e \<longrightarrow>
        payload (state_of (pushPayload enc trace t)) = payload t
        \<and> errorBuffer (state_of (pushPayload enc trace t)) =
            (if len_chan (errorBuffer t) < capacity (errorBuffer t)
             then (errorBuffer t)\<lparr>items := items (errorBuffer t) @ [encodingError e]\<rparr>
             else errorBuffer t))
   \<and> (\<forall>n. enc trace = Inr n \<longrightarrow>
        traces (payload (state_of (pushPayload enc trace t))) = traces (payload t) @ [trace]
        \<and> size_payload (payload (state_of (pushPayload enc trace t))) = size_payload (payload t) + n
        \<and> errorBuffer (state_of (pushPayload enc trace t)) = errorBuffer t)
   \<and> flushTracesReq (state_of (pushPayload enc trace t)) =
        (if size_payload (payload (state_of (pushPayload enc trace t))) > 5 * 1024 * 1024
            \<and> len_chan (flushTracesReq t) < capacity (flushTracesReq t)
         then (flushTracesReq t)\<lparr>items := items (flushTracesReq t) @ [()]\<rparr>
         else flushTracesReq t)"
  by (auto simp: pushPayload_state Let_def payloadSizeLimit_def requestFlushTraces_fields
      requestFlushTraces_chan pushError_fields pushError_errorBuffer size_payload_def
      split: sum.split)

theorem pushPayload_merge_witness:
  "byteEncoder [] = Inl ''empty trace''
   \<and> payload (state_of (pushPayload byteEncoder [] loaded)) = payload loaded
   \<and> items (errorBuffer (state_of (pushPayload byteEncoder [] loaded))) = [encodingError ''empty trace'']
   \<and> payload (state_of (pushPayload byteEncoder [] choked)) = payload choked
   \<and> errorBuffer (state_of (pushPayload byteEncoder [] choked)) = errorBuffer choked
   \<and> byteEncoder [spanA] = Inr 100
   \<and> traces (payload (state_of (pushPayload byteEncoder [spanA] loaded))) = [[spanA], [spanA]]
   \<and> items (flushTracesReq (state_of (pushPayload byteEncoder [spanA] loaded))) = []
   \<and> items (flushTracesReq (state_of (pushPayload byteEncoder [] heavy))) = []
   \<and> items (flushTracesReq (state_of (pushPayload byteEncoder [spanA] heavy))) = [()]
   \<and> items (flushTracesReq (state_of (pushPayload byteEncoder [spanA]
                (state_of (pushPayload byteEncoder [spanA] heavy))))) = [()]"
  using pushPayload_merge [of byteEncoder "[]" loaded]
    pushPayload_merge [of byteEncoder "[]" choked]
    pushPayload_merge [of byteEncoder "[spanA]" loaded]
    pushPayload_merge [of byteEncoder "[]" heavy]
    pushPayload_merge [of byteEncoder "[spanA]" heavy]
    pushPayload_merge [of byteEncoder "[spanA]" "state_of (pushPayload byteEncoder [spanA] heavy)"]
  by (simp add: byteEncoder_def loaded_def heavy_def choked_def newTracer_def make_chan_def
        len_chan_def errorBufferSize_def size_payload_def payloadSizeLimit_def)

text \<open>
  Claim C8 as stated fails when the merge fails while the error queue is full: the
  encoding error is not in the error queue afterwards.
\<close>

theorem pushPayload_encoding_error_discarded:
  "byteEncoder [] = Inl ''empty trace''
   \<and> payload (state_of (pushPayload byteEncoder [] choked)) = payload choked
   \<and> encodingError ''empty trace''
        \<notin> set (items (errorBuffer (state_of (pushPayload byteEncoder [] choked))))"
  by (simp add: pushPayload_state pushError_fields pushError_errorBuffer byteEncoder_def Let_def
        choked_def newTracer_def make_chan_def len_chan_def payloadSizeLimit_def
        size_payload_def newPayload_def)

subsection \<open>The worker and Stop\<close>











section \<open>Properties of the span factory\<close>

subsection \<open>Tags leave the identity of a span alone\<close>

lemma SetTag_fields:
  "Name (SetTag k v s) = Name s"
  "Service (SetTag k v s) = Service s"
  "Resource (SetTag k v s) = Resource s"
  "SpanID (SetTag k v s) = SpanID s"
  "TraceID (SetTag k v s) = TraceID s"
  "ParentID (SetTag k v s) = ParentID s"
  "Start (SetTag k v s) = Start s"
  "finished (SetTag k v s) = finished s"
  "parent (SetTag k v s) = parent s"
  "span_context (SetTag k v s) = span_context s"
  by (simp_all add: SetTag_def split: tagvalue.split)

lemma applyTags_fields:
  "Name (applyTags kvs s) = Name s"
  "Service (applyTags kvs s) = Service s"
  "Resource (applyTags kvs s) = Resource s"
  "SpanID (applyTags kvs s) = SpanID s"
  "TraceID (applyTags kvs s) = TraceID s"
  "ParentID (applyTags kvs s) = ParentID s"
  "Start (applyTags kvs s) = Start s"
  "finished (applyTags kvs s) = finished s"
  "parent (applyTags kvs s) = parent s"
  "span_context (applyTags kvs s) = span_context s"
  by (induction kvs s rule: applyTags.induct; simp add: SetTag_fields)+

lemma map_upd_add_assoc: "m(k \<mapsto> x) ++ n = m ++ ([k \<mapsto> x] ++ n)"
  by (rule ext) (simp add: map_add_def split: option.split)


lemma applyTags_Metrics: "Metrics (applyTags kvs s) = Metrics s ++ tagMetrics kvs"
proof (induction kvs arbitrary: s)
  case Nil
  show ?case by simp
next
  case (Cons kv kvs)
  obtain k v where kv: "kv = (k, v)" by (cases kv)
  have step: "Metrics (applyTags (kv # kvs) s) = Metrics (SetTag k v s) ++ tagMetrics kvs"
    by (simp add: kv Cons.IH)
  show ?case
  proof (cases v)
    case (TagString x)
    then show ?thesis by (simp add: kv Cons.IH SetTag_def)
  next
    case (TagNumber x)
    note step
    also have "Metrics (SetTag k v s) ++ tagMetrics kvs = (Metrics s)(k \<mapsto> x) ++ tagMetrics kvs"
      by (simp add: SetTag_def TagNumber)
    also have "\<dots> = Metrics s ++ ([k \<mapsto> x] ++ tagMetrics kvs)"
      by (rule map_upd_add_assoc)
    also have "\<dots> = Metrics s ++ tagMetrics (kv # kvs)"
      by (simp only: kv TagNumber tagMetrics.simps)
    finally show ?thesis .
  qed
qed

subsection \<open>sample\<close>

lemma sample_total: "span_context s = Some c \<Longrightarrow> \<exists>s'. sample cfg s = Inr s'"
  by (simp add: sample_def Let_def split: option.split)

lemma sample_nil_context: "span_context s = None \<Longrightarrow> sample cfg s = Inl NilDereference"
  by (simp add: sample_def Let_def)

lemma sample_fields:
  assumes "sample cfg s = Inr s'"
  shows "Name s' = Name s" "Service s' = Service s" "Resource s' = Resource s"
    "Meta s' = Meta s" "SpanID s' = SpanID s" "TraceID s' = TraceID s"
    "ParentID s' = ParentID s" "Start s' = Start s" "finished s' = finished s"
    "parent s' = parent s"
  using assms by (auto simp: sample_def Let_def split: option.splits if_splits)

text \<open>
  Claim C7. Let the span have a context, as every span that \<open>StartSpan\<close> hands to \<open>sample\<close>
  has. If the sampler has a \<open>Rate()\<close> with value \<open>r < 1\<close>, samples the span, and the span is
  not marked finished, then afterwards the metric \<open>_sample_rate\<close> of the span is \<open>r\<close> and
  the other metrics are as before. If \<open>Rate()\<close> is 1, or the span is not sampled, or the
  span is marked finished, the metrics are as before.
\<close>

theorem sample_rate_metric:
  assumes "span_context s = Some c"
  shows "\<exists>s'. sample cfg s = Inr s'
     \<and> (\<forall>r. Rate (sampler cfg) = Some r \<and> float_less r (Finite 1)
             \<and> Sample (sampler cfg) s \<and> \<not> finished s
           \<longrightarrow> Metrics s' = (Metrics s)(sampleRateMetricKey \<mapsto> r)
               \<and> Metrics s' sampleRateMetricKey = Some r)
     \<and> (Rate (sampler cfg) = Some (Finite 1) \<or> \<not> Sample (sampler cfg) s
           \<longrightarrow> Metrics s' = Metrics s)
     \<and> (finished s \<longrightarrow> Metrics s' = Metrics s)"
  using assms by (auto simp: sample_def Let_def split: option.splits)

theorem sample_rate_metric_witness:
  "span_context spanA = Some \<lparr>traceID = 7, spanID = 5, sampled = True\<rparr>
   \<and> Rate (sampler agentUp) = Some (Finite (1 / 2))
   \<and> float_less (Finite (1 / 2)) (Finite 1)
   \<and> Sample (sampler agentUp) spanA \<and> \<not> finished spanA
   \<and> (\<exists>s'. sample agentUp spanA = Inr s'
         \<and> Metrics s' sampleRateMetricKey = Some (Finite (1 / 2)))
   \<and> (\<exists>s'. sample (agentUp\<lparr>sampler := \<lparr>Sample = (\<lambda>s. True), Rate = Some (Finite 1)\<rparr>\<rparr>) spanA = Inr s'
         \<and> Metrics s' = Metrics spanA)
   \<and> (\<exists>s'. sample agentUp (spanA\<lparr>finished := True\<rparr>) = Inr s'
         \<and> Metrics s' = Metrics spanA)"
  using sample_rate_metric [of spanA "\<lparr>traceID = 7, spanID = 5, sampled = True\<rparr>" agentUp]
    sample_rate_metric [of spanA "\<lparr>traceID = 7, spanID = 5, sampled = True\<rparr>"
      "agentUp\<lparr>sampler := \<lparr>Sample = (\<lambda>s. True), Rate = Some (Finite 1)\<rparr>\<rparr>"]
    sample_rate_metric [of "spanA\<lparr>finished := True\<rparr>" "\<lparr>traceID = 7, spanID = 5, sampled = True\<rparr>" agentUp]
  by (auto simp: spanA_def agentUp_def halfSampler_def)

subsection \<open>StartSpan\<close>

lemma ownContext_local:
  "ownContext opts = Some (c, Some p) \<longleftrightarrow> Parent opts = Some (Own (Some (c, Some p)))"
  by (simp add: ownContext_def split: option.split SpanContext.split)

lemma ownContext_remote:
  "ownContext opts = Some (c, None) \<longleftrightarrow> Parent opts = Some (Own (Some (c, None)))"
  by (simp add: ownContext_def split: option.split SpanContext.split)

lemma ownContext_none:
  "ownContext opts = None \<longleftrightarrow>
     Parent opts = None \<or> Parent opts = Some Foreign \<or> Parent opts = Some (Own None)"
  by (simp add: ownContext_def split: option.split SpanContext.split)

text \<open>The branch of lines 249-254: the span is stamped, sampled, and then tagged.\<close>

lemma StartSpan_root:
  assumes "ownContext opts = None \<and> s1 = spanDefaults cfg e name opts
     \<or> (\<exists>c. ownContext opts = Some (c, None)
            \<and> s1 = (spanDefaults cfg e name opts)\<lparr>TraceID := traceID c, ParentID := spanID c\<rparr>)"
  shows "\<exists>s4. sample cfg (SetTag ext_Pid (TagString (Itoa (Getpid e)))
                    (s1\<lparr>span_context := Some (nsc s1 None)\<rparr>)) = Inr s4
     \<and> StartSpan nsc cfg e name opts =
         Inr (applyTags (globalTags cfg) (applyTags (Tags opts) s4),
              [SetTag ext_Pid (TagString (Itoa (Getpid e))) (s1\<lparr>span_context := Some (nsc s1 None)\<rparr>)])"
proof -
  let ?s3 = "SetTag ext_Pid (TagString (Itoa (Getpid e))) (s1\<lparr>span_context := Some (nsc s1 None)\<rparr>)"
  have "span_context ?s3 = Some (nsc s1 None)"
    by (simp add: SetTag_fields)
  then obtain s4 where s4: "sample cfg ?s3 = Inr s4"
    using sample_total by blast
  from assms have "StartSpan nsc cfg e name opts
      = Inr (applyTags (globalTags cfg) (applyTags (Tags opts) s4), [?s3])"
    using s4 by (auto simp: StartSpan_def Let_def)
  with s4 show ?thesis by blast
qed

text \<open>The branch of lines 232-247: the parent is a span of this process.\<close>

lemma StartSpan_local:
  assumes "ownContext opts = Some (c, Some p)"
  shows "\<exists>child. StartSpan nsc cfg e name opts = Inr (child, [])
     \<and> SpanID child = random_Uint64 e
     \<and> TraceID child = TraceID p \<and> ParentID child = SpanID p \<and> Service child = Service p
     \<and> parent child = Some (SpanID p)
     \<and> Metrics child =
         (case Metrics p samplingPriorityKey of
            None \<Rightarrow> Map.empty
          | Some v \<Rightarrow> [samplingPriorityKey \<mapsto> v]) ++ tagMetrics (Tags opts) ++ tagMetrics (globalTags cfg)"
  using assms
  by (simp add: StartSpan_def Let_def spanDefaults_def applyTags_fields applyTags_Metrics
      split: option.split)

text \<open>
  Claim C3. A span started with a parent context of this tracer that has no local span
  reference takes its \<open>TraceID\<close> from the trace id of that context and its \<open>ParentID\<close> from
  the span id of that context.
\<close>

theorem StartSpan_remote_parent:
  assumes "Parent opts = Some (Own (Some (c, None)))"
  shows "\<exists>child calls. StartSpan nsc cfg e name opts = Inr (child, calls)
     \<and> TraceID child = traceID c \<and> ParentID child = spanID c"
proof -
  let ?s1 = "(spanDefaults cfg e name opts)\<lparr>TraceID := traceID c, ParentID := spanID c\<rparr>"
  let ?s3 = "SetTag ext_Pid (TagString (Itoa (Getpid e))) (?s1\<lparr>span_context := Some (nsc ?s1 None)\<rparr>)"
  from assms have "ownContext opts = Some (c, None)"
    by (simp add: ownContext_remote)
  then obtain s4 where s4: "sample cfg ?s3 = Inr s4"
    and r: "StartSpan nsc cfg e name opts
              = Inr (applyTags (globalTags cfg) (applyTags (Tags opts) s4), [?s3])"
    using StartSpan_root [of opts ?s1 cfg e name nsc] by blast
  have "TraceID s4 = traceID c" "ParentID s4 = spanID c"
    using sample_fields [OF s4] by (simp_all add: SetTag_fields)
  with r show ?thesis by (simp add: applyTags_fields)
qed

theorem StartSpan_remote_parent_witness:
  "Parent remoteParent = Some (Own (Some (remoteContext, None)))
   \<and> (\<exists>child calls. StartSpan plainContext agentUp firstCall ''handle'' remoteParent = Inr (child, calls)
         \<and> TraceID child = 7 \<and> ParentID child = 9)"
  using StartSpan_remote_parent [of remoteParent remoteContext plainContext agentUp firstCall "''handle''"]
  by (simp add: remoteParent_def noParent_def remoteContext_def)

text \<open>
  Claim C2, as the code has it. A span started with a parent context whose local span
  reference is a span \<open>p\<close> of this process has the \<open>TraceID\<close> of \<open>p\<close>, has the \<open>SpanID\<close> of
  \<open>p\<close> as its \<open>ParentID\<close>, and has the \<open>Service\<close> of \<open>p\<close>. The sampling-priority metric of
  \<open>p\<close>, when \<open>p\<close> has one, is copied into the metrics of the child before the tags of the
  start options and of the configuration are applied: the metrics of the child are that
  entry followed by the numeric tags, where a later entry wins. So the child has the
  value of \<open>p\<close> for that metric unless one of the tags is numeric and has the same key.
\<close>

theorem StartSpan_local_parent:
  assumes "Parent opts = Some (Own (Some (c, Some p)))"
  shows "\<exists>child calls. StartSpan nsc cfg e name opts = Inr (child, calls)
     \<and> TraceID child = TraceID p \<and> ParentID child = SpanID p \<and> Service child = Service p
     \<and> Metrics child =
         (case Metrics p samplingPriorityKey of
            None \<Rightarrow> Map.empty
          | Some v \<Rightarrow> [samplingPriorityKey \<mapsto> v]) ++ tagMetrics (Tags opts) ++ tagMetrics (globalTags cfg)
     \<and> (\<forall>v. Metrics p samplingPriorityKey = Some v
            \<and> tagMetrics (Tags opts) samplingPriorityKey = None
            \<and> tagMetrics (globalTags cfg) samplingPriorityKey = None
          \<longrightarrow> Metrics child samplingPriorityKey = Some v)"
proof -
  from assms have "ownContext opts = Some (c, Some p)"
    by (simp add: ownContext_local)
  from StartSpan_local [OF this, of nsc cfg e name]
  obtain child where r: "StartSpan nsc cfg e name opts = Inr (child, [])"
    and f: "TraceID child = TraceID p" "ParentID child = SpanID p" "Service child = Service p"
    and m: "Metrics child =
         (case Metrics p samplingPriorityKey of
            None \<Rightarrow> Map.empty
          | Some v \<Rightarrow> [samplingPriorityKey \<mapsto> v]) ++ tagMetrics (Tags opts) ++ tagMetrics (globalTags cfg)"
    by blast
  have "Metrics child samplingPriorityKey = Some v"
    if "Metrics p samplingPriorityKey = Some v"
      "tagMetrics (Tags opts) samplingPriorityKey = None"
      "tagMetrics (globalTags cfg) samplingPriorityKey = None" for v
    using that by (simp add: m map_add_def)
  with r f m show ?thesis by blast
qed

theorem StartSpan_local_parent_witness:
  "Parent localParent = Some (Own (Some (\<lparr>traceID = 7, spanID = 5, sampled = True\<rparr>, Some spanA)))
   \<and> Metrics spanA samplingPriorityKey = Some (Finite 2)
   \<and> (\<exists>child calls. StartSpan plainContext agentUp firstCall ''query'' localParent = Inr (child, calls)
         \<and> TraceID child = 7 \<and> ParentID child = 5 \<and> Service child = ''web''
         \<and> Metrics child samplingPriorityKey = Some (Finite 2)
         \<and> Metrics child ''k'' = Some (Finite 3))"
  using StartSpan_local_parent [of localParent "\<lparr>traceID = 7, spanID = 5, sampled = True\<rparr>" spanA
      plainContext agentUp firstCall "''query''"]
  by (auto simp: localParent_def noParent_def spanA_def agentUp_def samplingPriorityKey_def)

text \<open>
  Claim C2 as stated fails when a start option is a numeric tag under the key of the
  sampling-priority metric: the child then has the value of the tag, not that of the parent.
\<close>

theorem sampling_priority_replaced_by_tag:
  "Parent retagged = Some (Own (Some (\<lparr>traceID = 7, spanID = 5, sampled = True\<rparr>, Some spanA)))
   \<and> Metrics spanA samplingPriorityKey = Some (Finite 2)
   \<and> startedMetric samplingPriorityKey
        (StartSpan plainContext agentUp firstCall ''query'' retagged) = Some (Finite 0)"
  by (simp add: retagged_def localParent_def noParent_def spanA_def agentUp_def
        StartSpan_def Let_def ownContext_def spanDefaults_def startedMetric_def SetTag_def)






end
